theory Spec2Isabelle
  imports Main
begin

section \<open>JavaScript values, as far as the strategy inspects them\<close>

text \<open>
  \<^verbatim>\<open>src/lib/strategy.js\<close> tests values for truthiness (\<^verbatim>\<open>!x\<close>, \<^verbatim>\<open>x || y\<close>,
  \<^verbatim>\<open>if (x)\<close>) and compares them with \<^verbatim>\<open>!==\<close>. The value type keeps what these two
  operations can tell apart: the two absent values, booleans, numbers (integer valued
  ones, and NaN apart, the one value that is not strictly equal to itself), strings, and
  objects (functions among them), which are compared by reference and are always truthy.
\<close>

datatype jsval =
    JUndefined
  | JNull
  | JBool bool
  | JNum int
  | JNaN
  | JStr string
  | JObj nat

fun truthy :: "jsval \<Rightarrow> bool" where
  "truthy JUndefined = False"
| "truthy JNull = False"
| "truthy (JBool b) = b"
| "truthy (JNum n) = (n \<noteq> 0)"
| "truthy JNaN = False"
| "truthy (JStr s) = (s \<noteq> [])"
| "truthy (JObj r) = True"

text \<open>\<^verbatim>\<open>a || b\<close>: the left operand when it is truthy, the right one otherwise.\<close>

definition js_or :: "jsval \<Rightarrow> jsval \<Rightarrow> jsval" where
  "js_or a b = (if truthy a then a else b)"

text \<open>\<^verbatim>\<open>a !== b\<close>: strict inequality, without conversion.\<close>

definition strict_neq :: "jsval \<Rightarrow> jsval \<Rightarrow> bool" where
  "strict_neq a b = (a \<noteq> b \<or> a = JNaN)"

section \<open>The data of the strategy\<close>

text \<open>
  The request, of which the strategy reads \<^verbatim>\<open>req.body\<close> and \<^verbatim>\<open>req.query\<close>. Both
  are handed to \<^verbatim>\<open>lookup\<close> only, so their type \<open>'m\<close> is left open.
\<close>

record 'm request =
  body :: 'm
  query :: 'm

text \<open>The \<^verbatim>\<open>options\<close> object of the constructor; a property not given is \<open>JUndefined\<close>.\<close>

record strategy_options =
  jwtField :: jsval
  baseUrlField :: jsval
  pathField :: jsval
  extraDataField :: jsval
  passReqToCallback :: jsval

text \<open>The \<^verbatim>\<open>options\<close> object of \<^verbatim>\<open>authenticate\<close>.\<close>

record auth_options =
  badRequestMessage :: jsval

text \<open>
  What \<^verbatim>\<open>LitJsSdk.verifyJwt\<close> returns:
  \<^verbatim>\<open>{ verified, payload: { sub, baseUrl, path, extraData } }\<close>.
\<close>

record jwt_payload =
  sub :: jsval
  baseUrl :: jsval
  path :: jsval
  extraData :: jsval

record jwt_result =
  verified :: bool
  payload :: jwt_payload

text \<open>
  The application's verify callback is called as \<^verbatim>\<open>verify(address, callback)\<close> or as
  \<^verbatim>\<open>verify(req, address, callback)\<close>. What \<^verbatim>\<open>authenticate\<close> can observe of one call
  is: the arguments \<^verbatim>\<open>(err, user, info)\<close> of each call of \<^verbatim>\<open>callback\<close> made before
  the verify callback returns, the value it throws (if it throws), and the calls of
  \<^verbatim>\<open>callback\<close> made later, after \<^verbatim>\<open>authenticate\<close> has returned.
\<close>

datatype 'm verify_args =
    Call_addr jsval
  | Call_req "'m request" jsval

type_synonym done_args = "jsval \<times> jsval \<times> jsval"

record verify_run =
  calls :: "done_args list"
  thrown :: "jsval option"
  later_calls :: "done_args list"

type_synonym 'm verify_fn = "'m verify_args \<Rightarrow> verify_run"

text \<open>The fields the constructor sets on \<^verbatim>\<open>this\<close> (\<^verbatim>\<open>this._jwtField\<close>, ...).\<close>

record 'm strategy =
  this_jwtField :: jsval
  this_baseUrlField :: jsval
  this_pathField :: jsval
  this_extraDataField :: jsval
  this_name :: string
  this_verify :: "'m verify_fn"
  this_passReqToCallback :: jsval

text \<open>
  What a call of \<^verbatim>\<open>authenticate\<close> does, in order: the call of the collaborator
  \<^verbatim>\<open>LitJsSdk.verifyJwt({ jwt })\<close>, the call of the verify callback, and the calls of
  the actions \<^verbatim>\<open>this.fail\<close>, \<^verbatim>\<open>this.success\<close> and \<^verbatim>\<open>this.error\<close> that the host
  framework supplies. The first argument of \<^verbatim>\<open>fail\<close> is either the object literal
  \<^verbatim>\<open>{ message: m }\<close> or the \<^verbatim>\<open>info\<close> value passed on from the verify callback; its
  second argument, the status, is absent in \<^verbatim>\<open>self.fail(info)\<close>. The three actions
  are taken to return normally.
\<close>

datatype fail_info = Message jsval | Info jsval

datatype 'm event =
    VerifyJwt jsval
  | Verify "'m verify_args"
  | Fail fail_info "nat option"
  | Success jsval jsval
  | Error jsval

text \<open>
  The outcome of one call: the events until the call ends, the exception that leaves the
  call (if any), and the events that follow later, when the verify callback completes
  asynchronously.
\<close>

record 'm run =
  events :: "'m event list"
  escaped :: "jsval option"
  later :: "'m event list"

section \<open>The constructor\<close>

text \<open>
  \<^verbatim>\<open>function Strategy(options, verify)\<close>. The first argument is an options object, a
  function (then it is the verify callback) or omitted; the second one a function or
  omitted. Both throws of the constructor are TypeErrors: the one it raises itself, and
  the one of reading \<^verbatim>\<open>options.jwtField\<close> of an omitted \<^verbatim>\<open>options\<close>.
\<close>

datatype 'f options_arg = Function 'f | Object strategy_options | Undefined

datatype ctor_error = Requires_verify_callback | Options_undefined

definition Strategy :: "'m verify_fn options_arg \<Rightarrow> 'm verify_fn option \<Rightarrow> ctor_error + 'm strategy" where
  "Strategy options0 verify0 =
     (let (options, verify) =
            (case options0 of
               Function f \<Rightarrow> (Object \<lparr>jwtField = JUndefined, baseUrlField = JUndefined,
                                      pathField = JUndefined, extraDataField = JUndefined,
                                      passReqToCallback = JUndefined\<rparr>, Some f)
             | _ \<Rightarrow> (options0, verify0))
      in case verify of
           None \<Rightarrow> Inl Requires_verify_callback
         | Some v \<Rightarrow>
             (case options of
                Object opts \<Rightarrow>
                  Inr \<lparr>this_jwtField = js_or (jwtField opts) (JStr ''jwt''),
                       this_baseUrlField = js_or (baseUrlField opts) (JStr ''baseUrl''),
                       this_pathField = js_or (pathField opts) (JStr ''path''),
                       this_extraDataField = js_or (extraDataField opts) (JStr ''extraData''),
                       this_name = ''litProtocol'',
                       this_verify = v,
                       this_passReqToCallback = passReqToCallback opts\<rparr>
              | _ \<Rightarrow> Inl Options_undefined))"

section \<open>authenticate\<close>

text \<open>
  The completion handler \<^verbatim>\<open>function callback(err, user, info)\<close> handed to the verify
  callback.
\<close>

definition callback :: "jsval \<Rightarrow> jsval \<Rightarrow> jsval \<Rightarrow> 'm event" where
  "callback err user info =
     (if truthy err then Error err
      else if \<not> truthy user then Fail (Info info) None
      else Success user info)"

text \<open>
  Lines 77 to 86: the four values \<^verbatim>\<open>jwt\<close>, \<^verbatim>\<open>baseUrl\<close>, \<^verbatim>\<open>path\<close> and
  \<^verbatim>\<open>extraData\<close>, each \<^verbatim>\<open>lookup(req.body, field) || lookup(req.query, field)\<close>.
  \<^verbatim>\<open>lookup\<close> is imported from \<^verbatim>\<open>./utils\<close>, which is not among the sources: it is a
  parameter here, a function of the mapping and the field name that returns a value.
\<close>

definition credentials ::
  "('m \<Rightarrow> jsval \<Rightarrow> jsval) \<Rightarrow> 'm strategy \<Rightarrow> 'm request \<Rightarrow> jsval \<times> jsval \<times> jsval \<times> jsval" where
  "credentials lookup this req =
     (js_or (lookup (body req) (this_jwtField this)) (lookup (query req) (this_jwtField this)),
      js_or (lookup (body req) (this_baseUrlField this)) (lookup (query req) (this_baseUrlField this)),
      js_or (lookup (body req) (this_pathField this)) (lookup (query req) (this_pathField this)),
      js_or (lookup (body req) (this_extraDataField this)) (lookup (query req) (this_extraDataField this)))"

text \<open>
  \<^verbatim>\<open>Strategy.prototype.authenticate = function (req, options)\<close>. The collaborator
  \<^verbatim>\<open>LitJsSdk.verifyJwt\<close> is a parameter too: given the token it returns its result
  (\<open>Inr\<close>) or throws (\<open>Inl\<close>); the call is outside the \<^verbatim>\<open>try\<close> block, so what it
  throws leaves \<^verbatim>\<open>authenticate\<close>. \<^verbatim>\<open>options || {}\<close> makes an omitted \<^verbatim>\<open>options\<close>
  the empty object.
\<close>

definition authenticate ::
  "('m \<Rightarrow> jsval \<Rightarrow> jsval) \<Rightarrow> (jsval \<Rightarrow> jsval + jwt_result) \<Rightarrow> 'm strategy \<Rightarrow> 'm request \<Rightarrow>
   auth_options option \<Rightarrow> 'm run" where
  "authenticate lookup verifyJwt this req options0 =
     (let options = (case options0 of None \<Rightarrow> \<lparr>badRequestMessage = JUndefined\<rparr> | Some opts \<Rightarrow> opts);
          (jwt, baseUrl_r, path_r, extraData_r) = credentials lookup this req
      in if \<not> truthy jwt \<or> \<not> truthy baseUrl_r \<or> \<not> truthy path_r \<or> \<not> truthy extraData_r then
           \<lparr>events = [Fail (Message (js_or (badRequestMessage options) (JStr ''Missing credentials'')))
                            (Some 400)],
            escaped = None, later = []\<rparr>
         else
           (case verifyJwt jwt of
              Inl ex \<Rightarrow> \<lparr>events = [VerifyJwt jwt], escaped = Some ex, later = []\<rparr>
            | Inr res \<Rightarrow>
                (let address = sub (payload res)
                 in if strict_neq (baseUrl (payload res)) baseUrl_r \<or>
                       strict_neq (path (payload res)) path_r \<or>
                       strict_neq (extraData (payload res)) extraData_r then
                      \<lparr>events = [VerifyJwt jwt,
                                 Fail (Message (js_or (badRequestMessage options)
                                     (JStr ''Ooops. JWT payload does not match requested resource.'')))
                                   (Some 400)],
                       escaped = None, later = []\<rparr>
                    else if \<not> verified res then
                      \<lparr>events = [VerifyJwt jwt,
                                 Fail (Message (js_or (badRequestMessage options)
                                     (JStr ''Ooops. You don't have access to this resource.'')))
                                   (Some 400)],
                       escaped = None, later = []\<rparr>
                    else
                      (let args = (if truthy (this_passReqToCallback this)
                                   then Call_req req address else Call_addr address);
                           vr = this_verify this args
                       in \<lparr>events = [VerifyJwt jwt, Verify args]
                                   @ map (\<lambda>(err, user, info). callback err user info) (calls vr)
                                   @ (case thrown vr of None \<Rightarrow> [] | Some ex \<Rightarrow> [Error ex]),
                           escaped = None,
                           later = map (\<lambda>(err, user, info). callback err user info) (later_calls vr)\<rparr>))))"

section \<open>Observing a run\<close>

text \<open>The arguments of the calls of the verify callback among a list of events, in order.\<close>

fun verify_calls :: "'m event list \<Rightarrow> 'm verify_args list" where
  "verify_calls [] = []"
| "verify_calls (Verify a # es) = a # verify_calls es"
| "verify_calls (e # es) = verify_calls es"

text \<open>The per-call override \<^verbatim>\<open>options.badRequestMessage\<close>, after \<^verbatim>\<open>options || {}\<close>.\<close>

abbreviation override :: "auth_options option \<Rightarrow> jsval" where
  "override opts \<equiv> (case opts of None \<Rightarrow> JUndefined | Some ao \<Rightarrow> badRequestMessage ao)"

section \<open>Concrete inputs\<close>

text \<open>
  Modelled from the spec: \<^verbatim>\<open>lookup\<close> of \<^verbatim>\<open>./utils\<close> is missing from the sources. The
  specification describes it as a pure function \<^verbatim>\<open>lookup(mapping, key) -> value | absent\<close>.
  \<open>lookup_plain\<close> is that function on flat mappings and field names without a separator,
  with \<open>JUndefined\<close> for absent. The theorems below hold for every \<open>lookup\<close>;
  \<open>lookup_plain\<close> serves to evaluate them at concrete requests.
\<close>

definition lookup_plain :: "(string \<times> jsval) list \<Rightarrow> jsval \<Rightarrow> jsval" where
  "lookup_plain obj field =
     (case field of
        JStr k \<Rightarrow> (case map_of obj k of Some v \<Rightarrow> v | None \<Rightarrow> JUndefined)
      | _ \<Rightarrow> JUndefined)"

text \<open>
  A request with the token and the base URL in the body, an empty path in the body and
  the path in the query, and the extra data in the query only.
\<close>

definition sample_req :: "(string \<times> jsval) list request" where
  "sample_req =
     \<lparr>body = [(''jwt'', JStr ''t1''), (''baseUrl'', JStr ''https://x''), (''path'', JStr [])],
      query = [(''path'', JStr ''/r''), (''extraData'', JStr ''d1'')]\<rparr>"

text \<open>The same request without a token: none in the body, an empty one in the query.\<close>

definition sample_req_no_jwt :: "(string \<times> jsval) list request" where
  "sample_req_no_jwt =
     \<lparr>body = [(''baseUrl'', JStr ''https://x''), (''path'', JStr [])],
      query = [(''jwt'', JStr []), (''path'', JStr ''/r''), (''extraData'', JStr ''d1'')]\<rparr>"

text \<open>
  A collaborator that returns the given subject, path claim and verified flag, with the
  base URL and extra data of \<open>sample_req\<close>.
\<close>

definition sample_verifyJwt :: "jsval \<Rightarrow> jsval \<Rightarrow> bool \<Rightarrow> jsval \<Rightarrow> jsval + jwt_result" where
  "sample_verifyJwt subject path_claim flag token =
     Inr \<lparr>verified = flag,
          payload = \<lparr>sub = subject, baseUrl = JStr ''https://x'', path = path_claim,
                     extraData = JStr ''d1''\<rparr>\<rparr>"

text \<open>
  A strategy with the default field names, whose verify callback behaves as the given
  \<open>verify_run\<close> whatever its arguments.
\<close>

definition sample_strategy :: "jsval \<Rightarrow> verify_run \<Rightarrow> (string \<times> jsval) list strategy" where
  "sample_strategy pass vr =
     \<lparr>this_jwtField = JStr ''jwt'', this_baseUrlField = JStr ''baseUrl'',
      this_pathField = JStr ''path'', this_extraDataField = JStr ''extraData'',
      this_name = ''litProtocol'', this_verify = (\<lambda>a. vr), this_passReqToCallback = pass\<rparr>"

section \<open>Auxiliary facts\<close>

lemma verify_calls_append: "verify_calls (xs @ ys) = verify_calls xs @ verify_calls ys"
  by (induction xs rule: verify_calls.induct) simp_all

lemma verify_calls_callback:
  "verify_calls (map (\<lambda>(err, user, info). callback err user info) cs) = []"
  by (induction cs) (auto simp: callback_def)

lemma truthy_js_or: "truthy (js_or a b) \<longleftrightarrow> truthy a \<or> truthy b"
  by (simp add: js_or_def)

lemma strict_neq_truthy: "truthy b \<Longrightarrow> strict_neq a b \<longleftrightarrow> a \<noteq> b"
  by (auto simp: strict_neq_def)

lemma sample_credentials:
  "credentials lookup_plain (sample_strategy pass vr) sample_req =
     (JStr ''t1'', JStr ''https://x'', JStr ''/r'', JStr ''d1'')"
  by (simp add: credentials_def lookup_plain_def sample_strategy_def sample_req_def js_or_def)

text \<open>The presence check fails: one failure, nothing else.\<close>

lemma authenticate_missing:
  assumes "credentials lookup this req = (jwt, bu, pa, ed)"
    and "\<not> truthy jwt \<or> \<not> truthy bu \<or> \<not> truthy pa \<or> \<not> truthy ed"
  shows "authenticate lookup verifyJwt this req opts =
           \<lparr>events = [Fail (Message (js_or (override opts) (JStr ''Missing credentials''))) (Some 400)],
            escaped = None, later = []\<rparr>"
  using assms by (simp add: authenticate_def split: option.split)

text \<open>The presence check passes and a claim differs from the request.\<close>

lemma authenticate_mismatch:
  assumes "credentials lookup this req = (jwt, bu, pa, ed)"
    and "truthy jwt" "truthy bu" "truthy pa" "truthy ed"
    and "verifyJwt jwt = Inr res"
    and "baseUrl (payload res) \<noteq> bu \<or> path (payload res) \<noteq> pa \<or> extraData (payload res) \<noteq> ed"
  shows "authenticate lookup verifyJwt this req opts =
           \<lparr>events = [VerifyJwt jwt,
                      Fail (Message (js_or (override opts)
                          (JStr ''Ooops. JWT payload does not match requested resource.''))) (Some 400)],
            escaped = None, later = []\<rparr>"
  using assms by (simp add: authenticate_def strict_neq_truthy split: option.split)

text \<open>The claims match and the token is not verified.\<close>

lemma authenticate_denied:
  assumes "credentials lookup this req = (jwt, bu, pa, ed)"
    and "truthy jwt" "truthy bu" "truthy pa" "truthy ed"
    and "verifyJwt jwt = Inr res"
    and "baseUrl (payload res) = bu" "path (payload res) = pa" "extraData (payload res) = ed"
    and "\<not> verified res"
  shows "authenticate lookup verifyJwt this req opts =
           \<lparr>events = [VerifyJwt jwt,
                      Fail (Message (js_or (override opts)
                          (JStr ''Ooops. You don't have access to this resource.''))) (Some 400)],
            escaped = None, later = []\<rparr>"
  using assms by (simp add: authenticate_def strict_neq_truthy split: option.split)

text \<open>All checks pass: the decision is delegated to the verify callback.\<close>

lemma authenticate_delegated:
  assumes "credentials lookup this req = (jwt, bu, pa, ed)"
    and "truthy jwt" "truthy bu" "truthy pa" "truthy ed"
    and "verifyJwt jwt = Inr res"
    and "baseUrl (payload res) = bu" "path (payload res) = pa" "extraData (payload res) = ed"
    and "verified res"
    and "args = (if truthy (this_passReqToCallback this)
                 then Call_req req (sub (payload res)) else Call_addr (sub (payload res)))"
    and "vr = this_verify this args"
  shows "authenticate lookup verifyJwt this req opts =
           \<lparr>events = [VerifyJwt jwt, Verify args]
                      @ map (\<lambda>(err, user, info). callback err user info) (calls vr)
                      @ (case thrown vr of None \<Rightarrow> [] | Some ex \<Rightarrow> [Error ex]),
            escaped = None,
            later = map (\<lambda>(err, user, info). callback err user info) (later_calls vr)\<rparr>"
  using assms by (simp add: authenticate_def strict_neq_truthy Let_def split: option.split)

section \<open>The claims\<close>

text \<open>
  C2. When one of the four extracted values is missing or empty (the value found for its
  field is falsy in the body and in the query: \<open>JUndefined\<close>, \<open>JNull\<close> and the empty
  string are), \<^verbatim>\<open>authenticate\<close> calls \<^verbatim>\<open>fail\<close> with ``Missing credentials'', or the
  per-call override, and status 400, and does nothing else: neither the collaborator
  nor the verify callback is called, nothing is thrown.
\<close>

theorem missing_credentials_fail:
  assumes "f \<in> {this_jwtField this, this_baseUrlField this, this_pathField this,
                 this_extraDataField this}"
    and "\<not> truthy (lookup (body req) f)" and "\<not> truthy (lookup (query req) f)"
  shows "authenticate lookup verifyJwt this req opts =
           \<lparr>events = [Fail (Message (js_or (override opts) (JStr ''Missing credentials''))) (Some 400)],
            escaped = None, later = []\<rparr>"
proof -
  obtain jwt bu pa ed where c: "credentials lookup this req = (jwt, bu, pa, ed)"
    by (cases "credentials lookup this req") auto
  from assms c have "\<not> truthy jwt \<or> \<not> truthy bu \<or> \<not> truthy pa \<or> \<not> truthy ed"
    by (auto simp: credentials_def truthy_js_or)
  with c show ?thesis by (rule authenticate_missing)
qed

theorem missing_credentials_fail_witness:
  "authenticate lookup_plain (sample_verifyJwt (JStr ''addr1'') (JStr ''/r'') True)
       (sample_strategy JUndefined \<lparr>calls = [(JNull, JObj 7, JUndefined)], thrown = None, later_calls = []\<rparr>)
       sample_req_no_jwt None =
     \<lparr>events = [Fail (Message (JStr ''Missing credentials'')) (Some 400)],
      escaped = None, later = []\<rparr>
   \<and> authenticate lookup_plain (sample_verifyJwt (JStr ''addr1'') (JStr ''/r'') True)
       (sample_strategy JUndefined \<lparr>calls = [(JNull, JObj 7, JUndefined)], thrown = None, later_calls = []\<rparr>)
       sample_req_no_jwt (Some \<lparr>badRequestMessage = JStr ''No token''\<rparr>) =
     \<lparr>events = [Fail (Message (JStr ''No token'')) (Some 400)],
      escaped = None, later = []\<rparr>"
proof -
  let ?S = "sample_strategy JUndefined
      \<lparr>calls = [(JNull, JObj 7, JUndefined)], thrown = None, later_calls = []\<rparr>"
  have f: "JStr ''jwt'' \<in> {this_jwtField ?S, this_baseUrlField ?S, this_pathField ?S,
                 this_extraDataField ?S}"
    by (simp add: sample_strategy_def)
  have b: "\<not> truthy (lookup_plain (body sample_req_no_jwt) (JStr ''jwt''))"
    by (simp add: lookup_plain_def sample_req_no_jwt_def)
  have q: "\<not> truthy (lookup_plain (query sample_req_no_jwt) (JStr ''jwt''))"
    by (simp add: lookup_plain_def sample_req_no_jwt_def)
  note inst = missing_credentials_fail [where lookup = lookup_plain and this = "?S"
      and req = sample_req_no_jwt and f = "JStr ''jwt''"
      and verifyJwt = "sample_verifyJwt (JStr ''addr1'') (JStr ''/r'') True", OF f b q]
  show ?thesis
    using inst [of None] inst [of "Some \<lparr>badRequestMessage = JStr ''No token''\<rparr>"]
    by (simp add: js_or_def)
qed

text \<open>
  C1. When the four values are present (so that the token is handed to the collaborator)
  and the payload the collaborator returns differs from the extracted base URL, path or
  extra data, \<^verbatim>\<open>authenticate\<close> calls \<^verbatim>\<open>fail\<close> with the resource-mismatch message (or
  the per-call override) and status 400, whatever the verified flag \<open>v\<close> is: the claims
  are compared before the flag is looked at.
\<close>

theorem mismatch_fail_before_verified:
  assumes "credentials lookup this req = (jwt, bu, pa, ed)"
    and "truthy jwt" "truthy bu" "truthy pa" "truthy ed"
    and "verifyJwt jwt = Inr \<lparr>verified = v, payload = p\<rparr>"
    and "baseUrl p \<noteq> bu \<or> path p \<noteq> pa \<or> extraData p \<noteq> ed"
  shows "authenticate lookup verifyJwt this req opts =
           \<lparr>events = [VerifyJwt jwt,
                      Fail (Message (js_or (override opts)
                          (JStr ''Ooops. JWT payload does not match requested resource.''))) (Some 400)],
            escaped = None, later = []\<rparr>"
  using assms
  by (intro authenticate_mismatch [where res = "\<lparr>verified = v, payload = p\<rparr>"]) simp_all

theorem mismatch_fail_before_verified_witness:
  "authenticate lookup_plain (sample_verifyJwt (JStr ''addr1'') (JStr ''/other'') True)
       (sample_strategy JUndefined \<lparr>calls = [(JNull, JObj 7, JUndefined)], thrown = None, later_calls = []\<rparr>)
       sample_req None =
     \<lparr>events = [VerifyJwt (JStr ''t1''),
                Fail (Message (JStr ''Ooops. JWT payload does not match requested resource.'')) (Some 400)],
      escaped = None, later = []\<rparr>
   \<and> authenticate lookup_plain (sample_verifyJwt (JStr ''addr1'') (JStr ''/other'') False)
       (sample_strategy JUndefined \<lparr>calls = [(JNull, JObj 7, JUndefined)], thrown = None, later_calls = []\<rparr>)
       sample_req None =
     \<lparr>events = [VerifyJwt (JStr ''t1''),
                Fail (Message (JStr ''Ooops. JWT payload does not match requested resource.'')) (Some 400)],
      escaped = None, later = []\<rparr>"
proof -
  let ?p = "\<lparr>sub = JStr ''addr1'', baseUrl = JStr ''https://x'', path = JStr ''/other'',
             extraData = JStr ''d1''\<rparr>"
  have r: "sample_verifyJwt (JStr ''addr1'') (JStr ''/other'') v (JStr ''t1'') =
             Inr \<lparr>verified = v, payload = ?p\<rparr>" for v
    by (simp add: sample_verifyJwt_def)
  have d: "baseUrl ?p \<noteq> JStr ''https://x'' \<or> path ?p \<noteq> JStr ''/r'' \<or> extraData ?p \<noteq> JStr ''d1''"
    by simp
  note inst = mismatch_fail_before_verified [where lookup = lookup_plain and req = sample_req
        and opts = None, OF sample_credentials _ _ _ _ _ d]
  show ?thesis
    using inst [where verifyJwt = "sample_verifyJwt (JStr ''addr1'') (JStr ''/other'') True", OF _ _ _ _ r]
      inst [where verifyJwt = "sample_verifyJwt (JStr ''addr1'') (JStr ''/other'') False", OF _ _ _ _ r]
    by (simp add: js_or_def)
qed

text \<open>
  C3. When the four values are present, the payload's base URL, path and extra data
  equal the extracted ones and the verified flag is false, \<^verbatim>\<open>authenticate\<close> calls
  \<^verbatim>\<open>fail\<close> with the not-authorized message (or the per-call override) and status 400;
  the verify callback is not called.
\<close>

theorem unverified_fail:
  assumes "credentials lookup this req = (jwt, bu, pa, ed)"
    and "truthy jwt" "truthy bu" "truthy pa" "truthy ed"
    and "verifyJwt jwt = Inr res"
    and "baseUrl (payload res) = bu" "path (payload res) = pa" "extraData (payload res) = ed"
    and "verified res = False"
  shows "authenticate lookup verifyJwt this req opts =
           \<lparr>events = [VerifyJwt jwt,
                      Fail (Message (js_or (override opts)
                          (JStr ''Ooops. You don't have access to this resource.''))) (Some 400)],
            escaped = None, later = []\<rparr>
         \<and> verify_calls (events (authenticate lookup verifyJwt this req opts)) = []
         \<and> verify_calls (later (authenticate lookup verifyJwt this req opts)) = []"
proof -
  have "authenticate lookup verifyJwt this req opts =
           \<lparr>events = [VerifyJwt jwt,
                      Fail (Message (js_or (override opts)
                          (JStr ''Ooops. You don't have access to this resource.''))) (Some 400)],
            escaped = None, later = []\<rparr>"
    using assms by (intro authenticate_denied) simp_all
  then show ?thesis by simp
qed

theorem unverified_fail_witness:
  "authenticate lookup_plain (sample_verifyJwt (JStr ''addr1'') (JStr ''/r'') False)
       (sample_strategy JUndefined \<lparr>calls = [(JNull, JObj 7, JUndefined)], thrown = None, later_calls = []\<rparr>)
       sample_req None =
     \<lparr>events = [VerifyJwt (JStr ''t1''),
                Fail (Message (JStr ''Ooops. You don't have access to this resource.'')) (Some 400)],
      escaped = None, later = []\<rparr>"
proof -
  let ?res = "\<lparr>verified = False,
               payload = \<lparr>sub = JStr ''addr1'', baseUrl = JStr ''https://x'', path = JStr ''/r'',
                          extraData = JStr ''d1''\<rparr>\<rparr>"
  have r: "sample_verifyJwt (JStr ''addr1'') (JStr ''/r'') False (JStr ''t1'') = Inr ?res"
    by (simp add: sample_verifyJwt_def)
  show ?thesis
    using unverified_fail [where lookup = lookup_plain and req = sample_req and opts = None
        and verifyJwt = "sample_verifyJwt (JStr ''addr1'') (JStr ''/r'') False",
        OF sample_credentials _ _ _ _ r]
    by (simp add: js_or_def)
qed

text \<open>
  C4. When the four values are present, the claims match and the verified flag is true,
  the verify callback is called exactly once, during the call of \<^verbatim>\<open>authenticate\<close>:
  with the payload's \<^verbatim>\<open>sub\<close> as first argument, or, when \<^verbatim>\<open>passReqToCallback\<close> is
  set (truthy), with the request first and \<^verbatim>\<open>sub\<close> second.
\<close>

theorem verify_called_once:
  assumes "credentials lookup this req = (jwt, bu, pa, ed)"
    and "truthy jwt" "truthy bu" "truthy pa" "truthy ed"
    and "verifyJwt jwt = Inr res"
    and "baseUrl (payload res) = bu" "path (payload res) = pa" "extraData (payload res) = ed"
    and "verified res"
  shows "verify_calls (events (authenticate lookup verifyJwt this req opts)) =
           [if truthy (this_passReqToCallback this)
            then Call_req req (sub (payload res)) else Call_addr (sub (payload res))]
         \<and> verify_calls (later (authenticate lookup verifyJwt this req opts)) = []"
proof -
  define args where "args = (if truthy (this_passReqToCallback this)
      then Call_req req (sub (payload res)) else Call_addr (sub (payload res)))"
  define vr where "vr = this_verify this args"
  have "authenticate lookup verifyJwt this req opts =
           \<lparr>events = [VerifyJwt jwt, Verify args]
                      @ map (\<lambda>(err, user, info). callback err user info) (calls vr)
                      @ (case thrown vr of None \<Rightarrow> [] | Some ex \<Rightarrow> [Error ex]),
            escaped = None,
            later = map (\<lambda>(err, user, info). callback err user info) (later_calls vr)\<rparr>"
    using assms args_def vr_def by (intro authenticate_delegated) simp_all
  then show ?thesis
    by (simp add: verify_calls_append verify_calls_callback args_def split: option.split)
qed

theorem verify_called_once_witness:
  "verify_calls (events (authenticate lookup_plain (sample_verifyJwt (JStr ''addr1'') (JStr ''/r'') True)
       (sample_strategy JUndefined \<lparr>calls = [(JNull, JObj 7, JUndefined)], thrown = None, later_calls = []\<rparr>)
       sample_req None)) = [Call_addr (JStr ''addr1'')]
   \<and> verify_calls (events (authenticate lookup_plain (sample_verifyJwt (JStr ''addr1'') (JStr ''/r'') True)
       (sample_strategy (JBool True) \<lparr>calls = [(JNull, JObj 7, JUndefined)], thrown = None, later_calls = []\<rparr>)
       sample_req None)) = [Call_req sample_req (JStr ''addr1'')]"
proof -
  let ?res = "\<lparr>verified = True,
               payload = \<lparr>sub = JStr ''addr1'', baseUrl = JStr ''https://x'', path = JStr ''/r'',
                          extraData = JStr ''d1''\<rparr>\<rparr>"
  have r: "sample_verifyJwt (JStr ''addr1'') (JStr ''/r'') True (JStr ''t1'') = Inr ?res"
    by (simp add: sample_verifyJwt_def)
  let ?vr = "\<lparr>calls = [(JNull, JObj 7, JUndefined)], thrown = None, later_calls = []\<rparr>"
  note inst = verify_called_once [where lookup = lookup_plain and req = sample_req and opts = None
        and verifyJwt = "sample_verifyJwt (JStr ''addr1'') (JStr ''/r'') True"]
  show ?thesis
    using inst [OF sample_credentials [of JUndefined ?vr] _ _ _ _ r]
      inst [OF sample_credentials [of "JBool True" ?vr] _ _ _ _ r]
    by (simp add: sample_strategy_def)
qed

text \<open>
  C5. The completion handler turns its arguments \<^verbatim>\<open>(err, user, info)\<close> into one action:
  \<^verbatim>\<open>error(err)\<close> when \<^verbatim>\<open>err\<close> is truthy, whatever \<^verbatim>\<open>user\<close> is; otherwise
  \<^verbatim>\<open>fail(info)\<close>, without a status, when \<^verbatim>\<open>user\<close> is falsy; otherwise
  \<^verbatim>\<open>success(user, info)\<close>. For a request that passes all checks, the actions of
  \<^verbatim>\<open>authenticate\<close> after the call of the verify callback are these, one for each call
  of the handler, in order, during the call and later.
\<close>

theorem completion_handler_outcome:
  assumes "credentials lookup this req = (jwt, bu, pa, ed)"
    and "truthy jwt" "truthy bu" "truthy pa" "truthy ed"
    and "verifyJwt jwt = Inr res"
    and "baseUrl (payload res) = bu" "path (payload res) = pa" "extraData (payload res) = ed"
    and "verified res"
    and "(args :: 'm verify_args) = (if truthy (this_passReqToCallback this)
                 then Call_req req (sub (payload res)) else Call_addr (sub (payload res)))"
    and "this_verify this args = vr"
  shows "(callback err user info :: 'm event) =
           (if truthy err then Error err
            else if truthy user then Success user info
            else Fail (Info info) None)
         \<and> events (authenticate lookup verifyJwt this req opts) =
             [VerifyJwt jwt, Verify args]
             @ map (\<lambda>(err, user, info).
                      if truthy err then Error err
                      else if truthy user then Success user info
                      else Fail (Info info) None) (calls vr)
             @ (case thrown vr of None \<Rightarrow> [] | Some ex \<Rightarrow> [Error ex])
         \<and> later (authenticate lookup verifyJwt this req opts) =
             map (\<lambda>(err, user, info).
                      if truthy err then Error err
                      else if truthy user then Success user info
                      else Fail (Info info) None) (later_calls vr)"
proof -
  have h: "callback e u i =
      (if truthy e then Error e else if truthy u then Success u i else Fail (Info i) None)" for e u i
    by (simp add: callback_def)
  have "authenticate lookup verifyJwt this req opts =
           \<lparr>events = [VerifyJwt jwt, Verify args]
                      @ map (\<lambda>(err, user, info). callback err user info) (calls vr)
                      @ (case thrown vr of None \<Rightarrow> [] | Some ex \<Rightarrow> [Error ex]),
            escaped = None,
            later = map (\<lambda>(err, user, info). callback err user info) (later_calls vr)\<rparr>"
    using assms by (intro authenticate_delegated) simp_all
  then show ?thesis by (simp add: h)
qed

theorem completion_handler_outcome_witness:
  "events (authenticate lookup_plain (sample_verifyJwt (JStr ''addr1'') (JStr ''/r'') True)
       (sample_strategy JUndefined
          \<lparr>calls = [(JStr ''boom'', JObj 7, JUndefined)], thrown = None,
           later_calls = [(JNull, JBool False, JStr ''unknown''), (JNull, JObj 7, JNull)]\<rparr>)
       sample_req None) =
     [VerifyJwt (JStr ''t1''), Verify (Call_addr (JStr ''addr1'')), Error (JStr ''boom'')]
   \<and> later (authenticate lookup_plain (sample_verifyJwt (JStr ''addr1'') (JStr ''/r'') True)
       (sample_strategy JUndefined
          \<lparr>calls = [(JStr ''boom'', JObj 7, JUndefined)], thrown = None,
           later_calls = [(JNull, JBool False, JStr ''unknown''), (JNull, JObj 7, JNull)]\<rparr>)
       sample_req None) =
     [Fail (Info (JStr ''unknown'')) None, Success (JObj 7) JNull]"
proof -
  let ?res = "\<lparr>verified = True,
               payload = \<lparr>sub = JStr ''addr1'', baseUrl = JStr ''https://x'', path = JStr ''/r'',
                          extraData = JStr ''d1''\<rparr>\<rparr>"
  let ?vr = "\<lparr>calls = [(JStr ''boom'', JObj 7, JUndefined)], thrown = None,
           later_calls = [(JNull, JBool False, JStr ''unknown''), (JNull, JObj 7, JNull)]\<rparr>"
  have r: "sample_verifyJwt (JStr ''addr1'') (JStr ''/r'') True (JStr ''t1'') = Inr ?res"
    by (simp add: sample_verifyJwt_def)
  have a: "Call_addr (JStr ''addr1'') =
      (if truthy (this_passReqToCallback (sample_strategy JUndefined ?vr))
       then Call_req sample_req (sub (payload ?res)) else Call_addr (sub (payload ?res)))"
    by (simp add: sample_strategy_def)
  have v: "this_verify (sample_strategy JUndefined ?vr) (Call_addr (JStr ''addr1'')) = ?vr"
    by (simp add: sample_strategy_def)
  show ?thesis
    using completion_handler_outcome [where lookup = lookup_plain and req = sample_req
        and err = "JStr ''boom''" and user = "JObj 7" and info = JUndefined
        and opts = None and verifyJwt = "sample_verifyJwt (JStr ''addr1'') (JStr ''/r'') True",
        OF sample_credentials [of JUndefined ?vr] _ _ _ _ r _ _ _ _ a v]
    by simp
qed

text \<open>
  C6. When the verify callback throws, for a request that passes all checks, the thrown
  value is caught: \<^verbatim>\<open>authenticate\<close> ends with \<^verbatim>\<open>error(ex)\<close> and no exception leaves
  the call.
\<close>

theorem verify_throw_caught:
  assumes "credentials lookup this req = (jwt, bu, pa, ed)"
    and "truthy jwt" "truthy bu" "truthy pa" "truthy ed"
    and "verifyJwt jwt = Inr res"
    and "baseUrl (payload res) = bu" "path (payload res) = pa" "extraData (payload res) = ed"
    and "verified res"
    and "thrown (this_verify this
            (if truthy (this_passReqToCallback this)
             then Call_req req (sub (payload res)) else Call_addr (sub (payload res)))) = Some ex"
  shows "escaped (authenticate lookup verifyJwt this req opts) = None
         \<and> last (events (authenticate lookup verifyJwt this req opts)) = Error ex"
proof -
  define args where "args = (if truthy (this_passReqToCallback this)
      then Call_req req (sub (payload res)) else Call_addr (sub (payload res)))"
  define vr where "vr = this_verify this args"
  have "authenticate lookup verifyJwt this req opts =
           \<lparr>events = [VerifyJwt jwt, Verify args]
                      @ map (\<lambda>(err, user, info). callback err user info) (calls vr)
                      @ (case thrown vr of None \<Rightarrow> [] | Some ex \<Rightarrow> [Error ex]),
            escaped = None,
            later = map (\<lambda>(err, user, info). callback err user info) (later_calls vr)\<rparr>"
    using assms(1-10) args_def vr_def by (intro authenticate_delegated) simp_all
  moreover have "thrown vr = Some ex"
    using assms(11) by (simp add: vr_def args_def)
  ultimately show ?thesis by simp
qed

theorem verify_throw_caught_witness:
  "escaped (authenticate lookup_plain (sample_verifyJwt (JStr ''addr1'') (JStr ''/r'') True)
       (sample_strategy (JBool True) \<lparr>calls = [], thrown = Some (JObj 9), later_calls = []\<rparr>)
       sample_req None) = None
   \<and> last (events (authenticate lookup_plain (sample_verifyJwt (JStr ''addr1'') (JStr ''/r'') True)
       (sample_strategy (JBool True) \<lparr>calls = [], thrown = Some (JObj 9), later_calls = []\<rparr>)
       sample_req None)) = Error (JObj 9)"
proof -
  let ?res = "\<lparr>verified = True,
               payload = \<lparr>sub = JStr ''addr1'', baseUrl = JStr ''https://x'', path = JStr ''/r'',
                          extraData = JStr ''d1''\<rparr>\<rparr>"
  let ?vr = "\<lparr>calls = [], thrown = Some (JObj 9), later_calls = []\<rparr>"
  have r: "sample_verifyJwt (JStr ''addr1'') (JStr ''/r'') True (JStr ''t1'') = Inr ?res"
    by (simp add: sample_verifyJwt_def)
  have t: "thrown (this_verify (sample_strategy (JBool True) ?vr)
            (if truthy (this_passReqToCallback (sample_strategy (JBool True) ?vr))
             then Call_req sample_req (sub (payload ?res)) else Call_addr (sub (payload ?res)))) =
           Some (JObj 9)"
    by (simp add: sample_strategy_def)
  show ?thesis
    using verify_throw_caught [where lookup = lookup_plain and req = sample_req
        and opts = None and verifyJwt = "sample_verifyJwt (JStr ''addr1'') (JStr ''/r'') True",
        OF sample_credentials [of "JBool True" ?vr] _ _ _ _ r _ _ _ _ t]
    by simp
qed

text \<open>
  C10. The payload's \<^verbatim>\<open>sub\<close> is not checked for presence: for a request that passes all
  checks, the verify callback is called also when \<^verbatim>\<open>payload.sub\<close> is undefined, and
  receives undefined as the identity.
\<close>

theorem absent_subject_still_delegated:
  assumes "credentials lookup this req = (jwt, bu, pa, ed)"
    and "truthy jwt" "truthy bu" "truthy pa" "truthy ed"
    and "verifyJwt jwt = Inr res"
    and "baseUrl (payload res) = bu" "path (payload res) = pa" "extraData (payload res) = ed"
    and "verified res"
    and "sub (payload res) = JUndefined"
  shows "Verify (if truthy (this_passReqToCallback this)
                 then Call_req req JUndefined else Call_addr JUndefined)
           \<in> set (events (authenticate lookup verifyJwt this req opts))"
proof -
  define args where "args = (if truthy (this_passReqToCallback this)
      then Call_req req (sub (payload res)) else Call_addr (sub (payload res)))"
  define vr where "vr = this_verify this args"
  have "authenticate lookup verifyJwt this req opts =
           \<lparr>events = [VerifyJwt jwt, Verify args]
                      @ map (\<lambda>(err, user, info). callback err user info) (calls vr)
                      @ (case thrown vr of None \<Rightarrow> [] | Some ex \<Rightarrow> [Error ex]),
            escaped = None,
            later = map (\<lambda>(err, user, info). callback err user info) (later_calls vr)\<rparr>"
    using assms(1-10) args_def vr_def by (intro authenticate_delegated) simp_all
  then show ?thesis
    using assms(11) by (simp add: args_def)
qed

theorem absent_subject_still_delegated_witness:
  "Verify (Call_addr JUndefined)
     \<in> set (events (authenticate lookup_plain (sample_verifyJwt JUndefined (JStr ''/r'') True)
         (sample_strategy JUndefined
            \<lparr>calls = [(JNull, JBool False, JUndefined)], thrown = None, later_calls = []\<rparr>)
         sample_req None))"
proof -
  let ?res = "\<lparr>verified = True,
               payload = \<lparr>sub = JUndefined, baseUrl = JStr ''https://x'', path = JStr ''/r'',
                          extraData = JStr ''d1''\<rparr>\<rparr>"
  let ?vr = "\<lparr>calls = [(JNull, JBool False, JUndefined)], thrown = None, later_calls = []\<rparr>"
  have r: "sample_verifyJwt JUndefined (JStr ''/r'') True (JStr ''t1'') = Inr ?res"
    by (simp add: sample_verifyJwt_def)
  show ?thesis
    using absent_subject_still_delegated [where lookup = lookup_plain and req = sample_req
        and opts = None and verifyJwt = "sample_verifyJwt JUndefined (JStr ''/r'') True",
        OF sample_credentials [of JUndefined ?vr] _ _ _ _ r]
    by (simp add: sample_strategy_def)
qed

text \<open>
  C7. Each of the four values is looked up under its configured field name in the body
  first; the value found in the query is taken when the body has none (more generally,
  when the value found in the body is falsy, the empty string included). The field
  names the constructor stores are those of its options, and \<^verbatim>\<open>jwt\<close>, \<^verbatim>\<open>baseUrl\<close>,
  \<^verbatim>\<open>path\<close> and \<^verbatim>\<open>extraData\<close> where the options give none (an undefined or otherwise
  falsy name), as in the form with a single function argument.
\<close>

theorem extraction_body_then_query:
  "credentials lookup this req =
     (let pick = (\<lambda>f. if truthy (lookup (body req) f) then lookup (body req) f
                       else lookup (query req) f)
      in (pick (this_jwtField this), pick (this_baseUrlField this),
          pick (this_pathField this), pick (this_extraDataField this)))
   \<and> (Strategy (Object opts) v = Inr (s :: 'm strategy) \<longrightarrow>
        this_jwtField s = (if truthy (jwtField opts) then jwtField opts else JStr ''jwt'') \<and>
        this_baseUrlField s = (if truthy (baseUrlField opts) then baseUrlField opts else JStr ''baseUrl'') \<and>
        this_pathField s = (if truthy (pathField opts) then pathField opts else JStr ''path'') \<and>
        this_extraDataField s =
          (if truthy (extraDataField opts) then extraDataField opts else JStr ''extraData''))
   \<and> (Strategy (Function f) w = Inr (s' :: 'm strategy) \<longrightarrow>
        this_jwtField s' = JStr ''jwt'' \<and> this_baseUrlField s' = JStr ''baseUrl'' \<and>
        this_pathField s' = JStr ''path'' \<and> this_extraDataField s' = JStr ''extraData'')"
  by (auto simp: credentials_def Strategy_def js_or_def Let_def split: option.splits)

theorem extraction_body_then_query_witness:
  "credentials lookup_plain
       (sample_strategy JUndefined \<lparr>calls = [], thrown = None, later_calls = []\<rparr>) sample_req =
     (JStr ''t1'', JStr ''https://x'', JStr ''/r'', JStr ''d1'')
   \<and> Strategy (Object \<lparr>jwtField = JUndefined, baseUrlField = JUndefined, pathField = JUndefined,
                        extraDataField = JUndefined, passReqToCallback = JUndefined\<rparr>)
        (Some (\<lambda>a. \<lparr>calls = [], thrown = None, later_calls = []\<rparr>)) =
      Inr (sample_strategy JUndefined \<lparr>calls = [], thrown = None, later_calls = []\<rparr>)"
proof -
  let ?vr = "\<lparr>calls = [], thrown = None, later_calls = []\<rparr>"
  let ?o = "\<lparr>jwtField = JUndefined, baseUrlField = JUndefined, pathField = JUndefined,
             extraDataField = JUndefined, passReqToCallback = JUndefined\<rparr>"
  have s: "Strategy (Object ?o) (Some (\<lambda>a. ?vr)) = Inr (sample_strategy JUndefined ?vr)"
    by (simp add: Strategy_def sample_strategy_def js_or_def)
  show ?thesis
    using extraction_body_then_query [where lookup = lookup_plain and req = sample_req
        and this = "sample_strategy JUndefined ?vr" and opts = ?o and v = "Some (\<lambda>a. ?vr)"
        and s = "sample_strategy JUndefined ?vr" and f = "\<lambda>a. ?vr" and w = None
        and s' = "sample_strategy JUndefined ?vr"] s
    by (simp add: lookup_plain_def sample_req_def sample_strategy_def Let_def)
qed

text \<open>
  C8. Constructing the strategy without a verify callback throws: with an options object
  or nothing as first argument and no second argument, the constructor raises its
  TypeError. A function as first argument is taken as the verify callback, with the
  default options. Whenever the constructor succeeds, the strategy holds a verify
  callback that was supplied: the first argument, a function, or the second one.
\<close>

theorem construction_requires_verify:
  "(Strategy (Object opts) None :: ctor_error + 'm strategy) = Inl Requires_verify_callback
   \<and> (Strategy Undefined None :: ctor_error + 'm strategy) = Inl Requires_verify_callback
   \<and> (Strategy (Function f) w :: ctor_error + 'm strategy) =
       Inr \<lparr>this_jwtField = JStr ''jwt'', this_baseUrlField = JStr ''baseUrl'',
            this_pathField = JStr ''path'', this_extraDataField = JStr ''extraData'',
            this_name = ''litProtocol'', this_verify = f, this_passReqToCallback = JUndefined\<rparr>
   \<and> (Strategy a v = Inr (s :: 'm strategy) \<longrightarrow>
        a = Function (this_verify s) \<or> (\<exists>opts'. a = Object opts') \<and> v = Some (this_verify s))"
  by (auto simp: Strategy_def js_or_def split: options_arg.splits option.splits)

theorem construction_requires_verify_witness:
  "(Strategy (Object \<lparr>jwtField = JStr ''token'', baseUrlField = JUndefined, pathField = JUndefined,
                       extraDataField = JUndefined, passReqToCallback = JBool True\<rparr>) None
      :: ctor_error + (string \<times> jsval) list strategy) = Inl Requires_verify_callback
   \<and> (Strategy Undefined None :: ctor_error + (string \<times> jsval) list strategy) =
       Inl Requires_verify_callback
   \<and> Strategy (Function (\<lambda>a. \<lparr>calls = [], thrown = None, later_calls = []\<rparr>)) None =
       Inr (sample_strategy JUndefined \<lparr>calls = [], thrown = None, later_calls = []\<rparr>)"
  using construction_requires_verify [where 'm = "(string \<times> jsval) list"
      and opts = "\<lparr>jwtField = JStr ''token'', baseUrlField = JUndefined, pathField = JUndefined,
                    extraDataField = JUndefined, passReqToCallback = JBool True\<rparr>"
      and f = "\<lambda>a. \<lparr>calls = [], thrown = None, later_calls = []\<rparr>" and w = None
      and a = "Function (\<lambda>a. \<lparr>calls = [], thrown = None, later_calls = []\<rparr>)" and v = None
      and s = "sample_strategy JUndefined \<lparr>calls = [], thrown = None, later_calls = []\<rparr>"]
  by (simp add: sample_strategy_def)

text \<open>
  C9. Each of the three failures carries the message \<^verbatim>\<open>options.badRequestMessage\<close> of
  the call when it is given (truthy), and its own default otherwise: ``Missing
  credentials'' for missing credentials, ``Ooops. JWT payload does not match requested
  resource.'' for a mismatch, ``Ooops. You don't have access to this resource.'' for a
  token that is not verified. The one option overrides all three.
\<close>

theorem failure_message_override:
  assumes "credentials lookup this req = (jwt, bu, pa, ed)"
  shows "(\<not> truthy jwt \<or> \<not> truthy bu \<or> \<not> truthy pa \<or> \<not> truthy ed \<longrightarrow>
            events (authenticate lookup verifyJwt this req opts) =
              [Fail (Message (if truthy (override opts) then override opts
                              else JStr ''Missing credentials'')) (Some 400)])
       \<and> (truthy jwt \<and> truthy bu \<and> truthy pa \<and> truthy ed \<and> verifyJwt jwt = Inr res \<and>
            (baseUrl (payload res) \<noteq> bu \<or> path (payload res) \<noteq> pa \<or> extraData (payload res) \<noteq> ed) \<longrightarrow>
            events (authenticate lookup verifyJwt this req opts) =
              [VerifyJwt jwt,
               Fail (Message (if truthy (override opts) then override opts
                              else JStr ''Ooops. JWT payload does not match requested resource.''))
                 (Some 400)])
       \<and> (truthy jwt \<and> truthy bu \<and> truthy pa \<and> truthy ed \<and> verifyJwt jwt = Inr res \<and>
            baseUrl (payload res) = bu \<and> path (payload res) = pa \<and> extraData (payload res) = ed \<and>
            \<not> verified res \<longrightarrow>
            events (authenticate lookup verifyJwt this req opts) =
              [VerifyJwt jwt,
               Fail (Message (if truthy (override opts) then override opts
                              else JStr ''Ooops. You don't have access to this resource.''))
                 (Some 400)])"
proof (intro conjI impI)
  assume "\<not> truthy jwt \<or> \<not> truthy bu \<or> \<not> truthy pa \<or> \<not> truthy ed"
  with assms have "authenticate lookup verifyJwt this req opts =
           \<lparr>events = [Fail (Message (js_or (override opts) (JStr ''Missing credentials''))) (Some 400)],
            escaped = None, later = []\<rparr>"
    by (rule authenticate_missing)
  then show "events (authenticate lookup verifyJwt this req opts) =
              [Fail (Message (if truthy (override opts) then override opts
                              else JStr ''Missing credentials'')) (Some 400)]"
    by (simp add: js_or_def)
next
  assume a: "truthy jwt \<and> truthy bu \<and> truthy pa \<and> truthy ed \<and> verifyJwt jwt = Inr res \<and>
            (baseUrl (payload res) \<noteq> bu \<or> path (payload res) \<noteq> pa \<or> extraData (payload res) \<noteq> ed)"
  have "authenticate lookup verifyJwt this req opts =
           \<lparr>events = [VerifyJwt jwt,
                      Fail (Message (js_or (override opts)
                          (JStr ''Ooops. JWT payload does not match requested resource.''))) (Some 400)],
            escaped = None, later = []\<rparr>"
    using a by (intro authenticate_mismatch [where lookup = lookup and verifyJwt = verifyJwt
          and res = res, OF assms]) (simp, simp, simp, simp, simp, blast)
  then show "events (authenticate lookup verifyJwt this req opts) =
              [VerifyJwt jwt,
               Fail (Message (if truthy (override opts) then override opts
                              else JStr ''Ooops. JWT payload does not match requested resource.''))
                 (Some 400)]"
    by (simp add: js_or_def)
next
  assume a: "truthy jwt \<and> truthy bu \<and> truthy pa \<and> truthy ed \<and> verifyJwt jwt = Inr res \<and>
            baseUrl (payload res) = bu \<and> path (payload res) = pa \<and> extraData (payload res) = ed \<and>
            \<not> verified res"
  have "authenticate lookup verifyJwt this req opts =
           \<lparr>events = [VerifyJwt jwt,
                      Fail (Message (js_or (override opts)
                          (JStr ''Ooops. You don't have access to this resource.''))) (Some 400)],
            escaped = None, later = []\<rparr>"
    using a by (intro authenticate_denied [where lookup = lookup and verifyJwt = verifyJwt
          and res = res, OF assms]) simp_all
  then show "events (authenticate lookup verifyJwt this req opts) =
              [VerifyJwt jwt,
               Fail (Message (if truthy (override opts) then override opts
                              else JStr ''Ooops. You don't have access to this resource.''))
                 (Some 400)]"
    by (simp add: js_or_def)
qed

theorem failure_message_override_witness:
  "events (authenticate lookup_plain (sample_verifyJwt (JStr ''addr1'') (JStr ''/r'') True)
       (sample_strategy JUndefined \<lparr>calls = [], thrown = None, later_calls = []\<rparr>)
       sample_req_no_jwt (Some \<lparr>badRequestMessage = JStr ''Denied''\<rparr>)) =
     [Fail (Message (JStr ''Denied'')) (Some 400)]
   \<and> events (authenticate lookup_plain (sample_verifyJwt (JStr ''addr1'') (JStr ''/other'') True)
       (sample_strategy JUndefined \<lparr>calls = [], thrown = None, later_calls = []\<rparr>)
       sample_req (Some \<lparr>badRequestMessage = JStr ''Denied''\<rparr>)) =
     [VerifyJwt (JStr ''t1''), Fail (Message (JStr ''Denied'')) (Some 400)]
   \<and> events (authenticate lookup_plain (sample_verifyJwt (JStr ''addr1'') (JStr ''/r'') False)
       (sample_strategy JUndefined \<lparr>calls = [], thrown = None, later_calls = []\<rparr>)
       sample_req (Some \<lparr>badRequestMessage = JStr ''Denied''\<rparr>)) =
     [VerifyJwt (JStr ''t1''), Fail (Message (JStr ''Denied'')) (Some 400)]
   \<and> events (authenticate lookup_plain (sample_verifyJwt (JStr ''addr1'') (JStr ''/r'') False)
       (sample_strategy JUndefined \<lparr>calls = [], thrown = None, later_calls = []\<rparr>)
       sample_req (Some \<lparr>badRequestMessage = JStr []\<rparr>)) =
     [VerifyJwt (JStr ''t1''),
      Fail (Message (JStr ''Ooops. You don't have access to this resource.'')) (Some 400)]"
proof -
  let ?vr = "\<lparr>calls = [], thrown = None, later_calls = []\<rparr>"
  let ?S = "sample_strategy JUndefined ?vr"
  have c0: "credentials lookup_plain ?S sample_req_no_jwt =
      (JStr [], JStr ''https://x'', JStr ''/r'', JStr ''d1'')"
    by (simp add: credentials_def lookup_plain_def sample_strategy_def sample_req_no_jwt_def js_or_def)
  have r: "sample_verifyJwt (JStr ''addr1'') pc v (JStr ''t1'') =
      Inr \<lparr>verified = v, payload = \<lparr>sub = JStr ''addr1'', baseUrl = JStr ''https://x'', path = pc,
                                    extraData = JStr ''d1''\<rparr>\<rparr>" for pc v
    by (simp add: sample_verifyJwt_def)
  note missing = failure_message_override [where lookup = lookup_plain and this = ?S
      and req = sample_req_no_jwt and opts = "Some \<lparr>badRequestMessage = JStr ''Denied''\<rparr>"
      and verifyJwt = "sample_verifyJwt (JStr ''addr1'') (JStr ''/r'') True", OF c0]
  note mismatch = failure_message_override [where lookup = lookup_plain and this = ?S
      and req = sample_req and opts = "Some \<lparr>badRequestMessage = JStr ''Denied''\<rparr>"
      and verifyJwt = "sample_verifyJwt (JStr ''addr1'') (JStr ''/other'') True"
      and res = "\<lparr>verified = True, payload = \<lparr>sub = JStr ''addr1'', baseUrl = JStr ''https://x'',
                    path = JStr ''/other'', extraData = JStr ''d1''\<rparr>\<rparr>",
      OF sample_credentials [of JUndefined ?vr]]
  note denied = failure_message_override [where lookup = lookup_plain and this = ?S
      and req = sample_req
      and verifyJwt = "sample_verifyJwt (JStr ''addr1'') (JStr ''/r'') False"
      and res = "\<lparr>verified = False, payload = \<lparr>sub = JStr ''addr1'', baseUrl = JStr ''https://x'',
                    path = JStr ''/r'', extraData = JStr ''d1''\<rparr>\<rparr>",
      OF sample_credentials [of JUndefined ?vr]]
  show ?thesis
    using missing mismatch denied [of "Some \<lparr>badRequestMessage = JStr ''Denied''\<rparr>"]
      denied [of "Some \<lparr>badRequestMessage = JStr []\<rparr>"]
    by (simp add: r)
qed

end
